theory Spec2Isabelle
  imports Complex_Main
begin

section \<open>Python values and failures\<close>

text \<open>
  The program is \<^verbatim>\<open>main.py\<close>. Its numbers are Python floats; they are modelled as
  real numbers, so rounding, overflow and NaN are outside the model. Every operation of
  the source that can fail on real arguments is a function into \<open>error + real\<close>:
  a division whose divisor is not a literal, and \<^verbatim>\<open>**\<close> with a float exponent.
\<close>

datatype error = ZeroDivisionError | ValueError | ComplexResult

definition bind_res :: "error + 'a \<Rightarrow> ('a \<Rightarrow> error + 'b) \<Rightarrow> error + 'b" where
  "bind_res r f = (case r of Inl e \<Rightarrow> Inl e | Inr a \<Rightarrow> f a)"

definition py_div :: "real \<Rightarrow> real \<Rightarrow> error + real" where
  "py_div a b = (if b = 0 then Inl ZeroDivisionError else Inr (a / b))"

text \<open>
  \<^verbatim>\<open>x ** y\<close> with a float exponent: a positive base gives the real power; a zero base
  with a negative exponent raises; a negative base with a fractional exponent leaves
  the floats (Python answers with a complex number), which the model counts as a failure.
\<close>

definition float_pow :: "real \<Rightarrow> real \<Rightarrow> error + real" where
  "float_pow x y =
     (if 0 < x then Inr (x powr y)
      else if x = 0 then (if y < 0 then Inl ZeroDivisionError else Inr (if y = 0 then 1 else 0))
      else if y \<in> \<int> then Inr (x powi \<lfloor>y\<rfloor>)
      else Inl ComplexResult)"

definition radians :: "real \<Rightarrow> real" where
  "radians x = x * pi / 180"

section \<open>Physics and effects\<close>

definition volume_sphere :: "real \<Rightarrow> real" where
  "volume_sphere d_m = 4 / 3 * pi * (d_m / 2) ^ 3"

definition mass_from_diameter :: "real \<Rightarrow> real \<Rightarrow> real" where
  "mass_from_diameter d_m rho = rho * volume_sphere d_m"

definition kinetic_energy_joules :: "real \<Rightarrow> real \<Rightarrow> real" where
  "kinetic_energy_joules m_kg v_km_s = 0.5 * m_kg * (v_km_s * 1000) ^ 2"

definition joules_to_megatons_tnt :: "real \<Rightarrow> real" where
  "joules_to_megatons_tnt E_j = E_j / (4.184 * 10 ^ 15)"

definition surface_yield_mt :: "real \<Rightarrow> real \<Rightarrow> real" where
  "surface_yield_mt kinetic_mt angle_deg =
     (let theta = max 1 (min 90 angle_deg);
          f = 0.55 + 0.5 * sin (radians theta)
      in max (kinetic_mt * min f 1) (1 / 10 ^ 9))"

definition scaled_radius_km :: "real \<Rightarrow> real \<Rightarrow> error + real" where
  "scaled_radius_km yield_mt k =
     bind_res (float_pow (max yield_mt (1 / 10 ^ 12)) (1 / 3)) (\<lambda>c. Inr (k * c))"

definition blast_radii_km :: "real \<Rightarrow> error + (string \<rightharpoonup> real)" where
  "blast_radii_km yield_mt_surface =
     bind_res (scaled_radius_km yield_mt_surface 1.1) (\<lambda>a.
     bind_res (scaled_radius_km yield_mt_surface 2.2) (\<lambda>b.
     bind_res (scaled_radius_km yield_mt_surface 3.8) (\<lambda>c.
       Inr [''severe_blast_km'' \<mapsto> a, ''moderate_blast_km'' \<mapsto> b, ''light_blast_km'' \<mapsto> c])))"

definition thermal_radii_km :: "real \<Rightarrow> error + (string \<rightharpoonup> real)" where
  "thermal_radii_km yield_mt_surface =
     bind_res (scaled_radius_km yield_mt_surface 1.6) (\<lambda>a.
     bind_res (scaled_radius_km yield_mt_surface 4.5) (\<lambda>b.
       Inr [''severe_thermal_km'' \<mapsto> a, ''light_thermal_km'' \<mapsto> b]))"

definition impact_effects :: "real \<Rightarrow> real \<Rightarrow> error + (string \<rightharpoonup> real)" where
  "impact_effects yield_mt_kinetic angle_deg =
     (let Y = surface_yield_mt yield_mt_kinetic angle_deg;
          out = [''effective_surface_yield_mt'' \<mapsto> Y]
      in bind_res (blast_radii_km Y) (\<lambda>blast.
         bind_res (thermal_radii_km Y) (\<lambda>thermal.
           Inr (out ++ blast ++ thermal))))"

text \<open>
  The chain of \<^verbatim>\<open>MainWindow.on_calc\<close> from the four body parameters to the effects
  (mass, energy, kinetic yield, effects).
\<close>

definition on_calc_effects :: "real \<Rightarrow> real \<Rightarrow> real \<Rightarrow> real \<Rightarrow> error + (string \<rightharpoonup> real)" where
  "on_calc_effects d v rho angle =
     (let m = mass_from_diameter d rho;
          E = kinetic_energy_joules m v;
          mt = joules_to_megatons_tnt E
      in impact_effects mt angle)"

definition radius_keys :: "string list" where
  "radius_keys = [''severe_blast_km'', ''moderate_blast_km'', ''light_blast_km'',
                  ''severe_thermal_km'', ''light_thermal_km'']"

section \<open>Mitigation helper logic\<close>

definition classify_size :: "real \<Rightarrow> string" where
  "classify_size d_m =
     (if d_m < 10 then ''<10m''
      else if d_m < 50 then ''10-50m''
      else if d_m < 140 then ''50-140m''
      else if d_m < 300 then ''140-300m''
      else if d_m < 1000 then ''300m-1km''
      else ''>1km'')"

definition guess_event_type :: "real \<Rightarrow> real \<Rightarrow> string" where
  "guess_event_type d_m angle_deg =
     (if d_m < 60 \<and> angle_deg < 40 then ''airburst''
      else if d_m < 30 then ''airburst''
      else ''ground'')"

section \<open>Classification\<close>

text \<open>
  C9: the event type is "airburst" exactly when the diameter is below 30 m, or below
  60 m with an angle below 40 degrees, and "ground" otherwise; the size class is fixed
  by the breakpoints 10, 50, 140, 300 and 1000 m, each class holding its lower
  breakpoint and not its upper one.
\<close>

theorem classification_thresholds:
  "guess_event_type d a = (if d < 30 \<or> (d < 60 \<and> a < 40) then ''airburst'' else ''ground'')
   \<and> (classify_size d = ''<10m'') = (d < 10)
   \<and> (classify_size d = ''10-50m'') = (10 \<le> d \<and> d < 50)
   \<and> (classify_size d = ''50-140m'') = (50 \<le> d \<and> d < 140)
   \<and> (classify_size d = ''140-300m'') = (140 \<le> d \<and> d < 300)
   \<and> (classify_size d = ''300m-1km'') = (300 \<le> d \<and> d < 1000)
   \<and> (classify_size d = ''>1km'') = (1000 \<le> d)"
  by (simp add: guess_event_type_def classify_size_def)

theorem classification_thresholds_witness:
  "guess_event_type 50 30 = ''airburst'' \<and> guess_event_type 50 45 = ''ground''
   \<and> classify_size 10 = ''10-50m'' \<and> classify_size 1000 = ''>1km''"
  using classification_thresholds [of 50 30] classification_thresholds [of 50 45]
    classification_thresholds [of 10 0] classification_thresholds [of 1000 0]
  by simp

end
